theory Spec2Isabelle
  imports Complex_Main "HOL-Library.Sublist" "HOL-Library.Word"
begin

section \<open>JavaScript values used by the front end\<close>

text \<open>
  A JavaScript string is a sequence of UTF-16 code units; \<open>length\<close> counts code units,
  as \<open>String.prototype.length\<close> does. String constants of the source are written with
  \<open>js\<close> applied to an ASCII literal.
\<close>

type_synonym jsstring = "nat list"

definition js :: "string \<Rightarrow> jsstring" where
  "js s = map of_char s"

text \<open>
  A JavaScript number, as far as the comparisons of the source can tell: not-a-number, the
  two infinities, or a finite value. Every finite double is a rational number and the
  relational operators compare finite doubles exactly; any comparison with \<open>NaN\<close> is false.
\<close>

datatype js_number = NaN | NegInf | Num rat | PosInf

fun js_lt :: "js_number \<Rightarrow> js_number \<Rightarrow> bool" where
  "js_lt NaN _ = False"
| "js_lt _ NaN = False"
| "js_lt (Num a) (Num b) = (a < b)"
| "js_lt NegInf NegInf = False"
| "js_lt NegInf _ = True"
| "js_lt _ NegInf = False"
| "js_lt PosInf _ = False"
| "js_lt _ PosInf = True"

definition js_gt :: "js_number \<Rightarrow> js_number \<Rightarrow> bool" where
  "js_gt a b = js_lt b a"

fun js_le :: "js_number \<Rightarrow> js_number \<Rightarrow> bool" where
  "js_le NaN _ = False"
| "js_le _ NaN = False"
| "js_le a b = (a = b \<or> js_lt a b)"

section \<open>Request validation (\<open>frontend/src/main.ts\<close>)\<close>

text \<open>
  The object returned by \<open>buildPayload\<close>. \<open>resolution\<close> is the select's value split at
  \<open>'x'\<close> and mapped through \<open>Number\<close>: a list of numbers of any length, any of which may
  be \<open>NaN\<close>. \<open>outputPath\<close> may be \<open>undefined\<close>.
\<close>

record payload =
  text_p :: jsstring
  resolution :: "js_number list"
  fps :: js_number
  captionText :: jsstring
  captionsEnabled :: bool
  realtime :: bool
  hdAudio :: bool
  textTemp :: js_number
  waveformTemp :: js_number
  outputDir :: jsstring
  jobPrefix :: jsstring
  dryRun :: bool
  renderVideo :: bool
  outputPath :: "jsstring option"

text \<open>
  \<open>validate\<close>: four tests in source order, each pushing one message. \<open>!payload.text\<close> is
  true exactly for the empty string.
\<close>

definition validate :: "payload \<Rightarrow> string list" where
  "validate p =
     (if text_p p = [] then [''Prompt cannot be empty.''] else []) @
     (if js_lt (textTemp p) (Num 0) \<or> js_gt (textTemp p) (Num (3 / 2))
      then [''Text temperature must be 0-1.5.''] else []) @
     (if js_lt (waveformTemp p) (Num 0) \<or> js_gt (waveformTemp p) (Num (3 / 2))
      then [''Waveform temperature must be 0-1.5.''] else []) @
     (if js_le (fps p) (Num 0) then [''FPS must be greater than zero.''] else [])"

text \<open>A number lies in the closed interval from \<open>lo\<close> to \<open>hi\<close>.\<close>

definition in_range :: "js_number \<Rightarrow> js_number \<Rightarrow> js_number \<Rightarrow> bool" where
  "in_range lo hi x = (js_le lo x \<and> js_le x hi)"

text \<open>
  What the interface contract asks of a resolution: exactly two numbers, both positive
  integers.
\<close>

fun positive_integer :: "js_number \<Rightarrow> bool" where
  "positive_integer (Num q) = (0 < q \<and> q = of_int \<lfloor>q\<rfloor>)"
| "positive_integer _ = False"

definition resolution_ok :: "js_number list \<Rightarrow> bool" where
  "resolution_ok r = (length r = 2 \<and> list_all positive_integer r)"

definition example_payload :: payload where
  "example_payload =
     \<lparr> text_p = js ''hello'', resolution = [NaN], fps = Num 24,
       captionText = js ''hello'', captionsEnabled = True, realtime = False,
       hdAudio = False, textTemp = Num (7 / 10), waveformTemp = Num (7 / 10),
       outputDir = [], jobPrefix = [], dryRun = True, renderVideo = False,
       outputPath = None \<rparr>"

section \<open>Job records and the registry (\<open>frontend/src/types.ts\<close>, \<open>main.ts\<close>)\<close>

datatype status = planned | queued | running | completed | failed

definition terminal :: "status \<Rightarrow> bool" where
  "terminal s = (s = completed \<or> s = failed)"

text \<open>\<open>SynthesisPlan\<close>; its two optional fields are never read by the code modelled here.\<close>

record synthesis_plan =
  prompt_length :: nat
  modalities :: "jsstring list"
  render_video :: bool
  dry_run :: bool

text \<open>\<open>SynthesisResponse\<close>. A \<open>Record<string, string>\<close> is an association list.\<close>

record synthesis_response =
  job_id :: jsstring
  resp_status :: status
  resp_plan :: synthesis_plan
  resp_artifacts :: "(jsstring \<times> jsstring) list"

text \<open>\<open>JobState\<close>. Progress is an integer percentage; timestamps are clock readings.\<close>

record job_state =
  id_job :: jsstring
  status :: status
  plan :: synthesis_plan
  artifacts :: "(jsstring \<times> jsstring) list"
  progress :: int
  createdAt :: nat
  updatedAt :: nat
  prompt :: jsstring

text \<open>
  The module state: the \<open>jobs\<close> map, and the clock. \<open>Date.now()\<close> is read many times;
  \<open>clock w n\<close> is what its \<open>n\<close>-th call returns and \<open>calls w\<close> counts the calls made.
\<close>

record world =
  jobs :: "jsstring \<rightharpoonup> job_state"
  clock :: "nat \<Rightarrow> nat"
  calls :: nat

definition Date_now :: "world \<Rightarrow> nat \<times> world" where
  "Date_now w = (clock w (calls w), w\<lparr>calls := Suc (calls w)\<rparr>)"

text \<open>
  \<open>toJobStatus\<close>. \<open>data || {...}\<close> takes the fallback object exactly when \<open>data\<close> is
  \<open>null\<close>. The two timestamps are two calls of \<open>Date.now()\<close>.
\<close>

definition toJobStatus ::
  "synthesis_response option \<Rightarrow> jsstring \<Rightarrow> jsstring \<Rightarrow> world \<Rightarrow> job_state \<times> world" where
  "toJobStatus data fallbackId prompt_text w =
     (let base = (case data of
                    Some d \<Rightarrow> d
                  | None \<Rightarrow>
                      \<lparr> job_id = fallbackId, resp_status = queued,
                        resp_plan = \<lparr> prompt_length = length prompt_text,
                                      modalities = [js ''audio''],
                                      render_video = False, dry_run = True \<rparr>,
                        resp_artifacts = [] \<rparr>);
          (t1, w1) = Date_now w;
          (t2, w2) = Date_now w1
      in (\<lparr> id_job = job_id base, status = resp_status base, plan = resp_plan base,
            artifacts = resp_artifacts base,
            progress = (if resp_status base = completed then 100 else 10),
            createdAt = t1, updatedAt = t2, prompt = prompt_text \<rparr>, w2))"

text \<open>\<open>upsertJob\<close>: \<open>jobs.set(job.id, job)\<close>; the rendering of the list is not state.\<close>

definition upsertJob :: "job_state \<Rightarrow> world \<Rightarrow> world" where
  "upsertJob job w = w\<lparr>jobs := (jobs w)(id_job job \<mapsto> job)\<rparr>"

text \<open>
  \<open>updateJobProgress\<close>. \<open>current\<close> is the object stored under \<open>id\<close>, changed in place, so
  the entry under \<open>id\<close> changes; \<open>upsertJob(current)\<close> then stores the same object under
  \<open>current.id\<close>. \<open>if (status)\<close> holds for each of the five status strings and fails for
  \<open>undefined\<close>.
\<close>

definition updateJobProgress :: "jsstring \<Rightarrow> int \<Rightarrow> status option \<Rightarrow> world \<Rightarrow> world" where
  "updateJobProgress ident p st w =
     (case jobs w ident of
        None \<Rightarrow> w
      | Some current \<Rightarrow>
          (let c1 = current\<lparr>progress := min p 100\<rparr>;
               (t, w1) = Date_now w;
               c2 = c1\<lparr>updatedAt := t\<rparr>;
               c3 = (case st of Some s \<Rightarrow> c2\<lparr>status := s\<rparr> | None \<Rightarrow> c2)
           in upsertJob c3 (w1\<lparr>jobs := (jobs w1)(ident \<mapsto> c3)\<rparr>)))"

text \<open>
  A streamed event as the handler's cast types it:
  \<open>Partial<SynthesisResponse> & { progress?: number }\<close>. The handler reads \<open>job_id\<close>,
  \<open>progress\<close> and \<open>status\<close>.
\<close>

record event =
  ev_job_id :: "jsstring option"
  ev_status :: "status option"
  ev_artifacts :: "(jsstring \<times> jsstring) list option"
  ev_progress :: "int option"

text \<open>
  What \<open>JSON.parse\<close> hands to the handler, as far as the handler looks: a value that is
  falsy or whose \<open>typeof\<close> is not \<open>'object'\<close>, or an object read through the cast above
  (an array is an object without these fields).
\<close>

datatype json_value = Primitive | ObjectValue event

text \<open>What the stream decoder passes to its sink: a parsed value, or the raw payload text.\<close>

datatype 'j sse_data = Parsed 'j | Raw jsstring

text \<open>
  The \<open>onEvent\<close> callback of \<open>handlePrompt\<close>. A raw payload is a string, so it is falsy
  or not an object. \<open>event.job_id &&\<close> fails for a missing id and for the empty string;
  \<open>event.progress ?? 50\<close>.
\<close>

fun onEvent :: "json_value sse_data \<Rightarrow> world \<Rightarrow> world" where
  "onEvent (Raw s) w = w"
| "onEvent (Parsed Primitive) w = w"
| "onEvent (Parsed (ObjectValue e)) w =
     (case ev_job_id e of
        None \<Rightarrow> w
      | Some ident \<Rightarrow>
          if ident \<noteq> [] \<and> jobs w ident \<noteq> None
          then updateJobProgress ident (case ev_progress e of None \<Rightarrow> 50 | Some p \<Rightarrow> p)
                 (ev_status e) w
          else w)"

section \<open>Stream decoding (\<open>frontend/src/api.ts\<close>)\<close>

subsection \<open>String operations of the platform\<close>

text \<open>
  \<open>s.split('\n\n')\<close>: the pieces between the leftmost, non-overlapping occurrences of two
  consecutive line feeds, scanning from the left; the result always has a last piece, the
  text after the last occurrence. Code unit 10 is the line feed.
\<close>

fun split_blank :: "jsstring \<Rightarrow> jsstring list" where
  "split_blank [] = [ [] ]"
| "split_blank [c] = [ [c] ]"
| "split_blank (c # d # cs) =
     (if c = 10 \<and> d = 10 then [] # split_blank cs
      else (case split_blank (d # cs) of
              [] \<Rightarrow> [ [c] ]
            | m # ms \<Rightarrow> (c # m) # ms))"

text \<open>\<open>s.split('\n')\<close>.\<close>

fun split_lines :: "jsstring \<Rightarrow> jsstring list" where
  "split_lines [] = [ [] ]"
| "split_lines (c # cs) =
     (if c = 10 then [] # split_lines cs
      else (case split_lines cs of
              [] \<Rightarrow> [ [c] ]
            | m # ms \<Rightarrow> (c # m) # ms))"

text \<open>
  \<open>trim\<close> removes ECMAScript white space and line terminators from both ends: tab, line
  feed, vertical tab, form feed, carriage return, space, no-break space, the space
  separators of Unicode, the line and paragraph separators and the byte order mark.
\<close>

definition js_whitespace :: "nat \<Rightarrow> bool" where
  "js_whitespace c =
     (c \<in> set [9, 10, 11, 12, 13, 32, 160, 5760, 8232, 8233, 8239, 8287, 12288, 65279]
      \<or> (8192 \<le> c \<and> c \<le> 8202))"

definition js_trim :: "jsstring \<Rightarrow> jsstring" where
  "js_trim s = rev (dropWhile js_whitespace (rev (dropWhile js_whitespace s)))"

text \<open>\<open>s.replace(pat, rep)\<close> with a string pattern: the first occurrence only.\<close>

fun js_replace :: "jsstring \<Rightarrow> jsstring \<Rightarrow> jsstring \<Rightarrow> jsstring" where
  "js_replace pat rep [] = (if pat = [] then rep else [])"
| "js_replace pat rep (c # cs) =
     (if prefix pat (c # cs) then rep @ drop (length pat) (c # cs)
      else c # js_replace pat rep cs)"

text \<open>\<open>s.includes(sub)\<close>.\<close>

fun js_includes :: "jsstring \<Rightarrow> jsstring \<Rightarrow> bool" where
  "js_includes [] sub = (sub = [])"
| "js_includes (c # cs) sub = (prefix sub (c # cs) \<or> js_includes cs sub)"

subsection \<open>\<open>parseSseChunk\<close>\<close>

text \<open>
  The line of a message that carries the data: the message split at line feeds, each line
  trimmed, the first one that starts with \<open>data:\<close>.
\<close>

definition data_line :: "jsstring \<Rightarrow> jsstring option" where
  "data_line message =
     List.find (\<lambda>l. prefix (js ''data:'') l) (map js_trim (split_lines message))"

text \<open>The payload of a data line: \<open>line.replace('data:', '').trim()\<close>.\<close>

definition payload_text :: "jsstring \<Rightarrow> jsstring" where
  "payload_text line = js_trim (js_replace (js ''data:'') [] line)"

text \<open>
  One turn of the loop over the messages. \<open>JSON.parse\<close> is a function of the platform and a
  parameter here: \<open>None\<close> when it throws. A message without a data line is skipped
  (\<open>continue\<close>); otherwise the sink is called once, with the parsed value, or with the
  payload text when parsing throws. The list is what the sink receives, if one is
  registered; the sink itself is taken not to throw.
\<close>

definition message_events :: "(jsstring \<Rightarrow> 'j option) \<Rightarrow> jsstring \<Rightarrow> 'j sse_data list" where
  "message_events json_parse message =
     (case data_line message of
        None \<Rightarrow> []
      | Some line \<Rightarrow>
          (let payload = payload_text line
           in case json_parse payload of
                Some v \<Rightarrow> [Parsed v]
              | None \<Rightarrow> [Raw payload]))"

text \<open>
  \<open>parseSseChunk\<close>: the calls made to the sink, in order, and the remainder returned.
  \<open>messages.pop()\<close> takes the last piece off; it is never \<open>undefined\<close> since \<open>split\<close>
  returns at least one piece.
\<close>

definition parseSseChunk ::
  "(jsstring \<Rightarrow> 'j option) \<Rightarrow> jsstring \<Rightarrow> 'j sse_data list \<times> jsstring" where
  "parseSseChunk json_parse buffer =
     (let pieces = split_blank buffer;
          remainder = last pieces;
          messages = butlast pieces
      in (concat (map (message_events json_parse) messages), remainder))"

subsection \<open>\<open>TextDecoder\<close> in streaming mode\<close>

text \<open>
  \<open>new TextDecoder()\<close> decodes UTF-8 and replaces malformed input by U+FFFD. With
  \<open>{ stream: true }\<close> it keeps its state between calls and never flushes. The decoder
  below follows the UTF-8 decoder of the WHATWG Encoding Standard, one byte at a time.
\<close>

record utf8_decoder =
  code_point :: nat
  bytes_seen :: nat
  bytes_needed :: nat
  lower_boundary :: nat
  upper_boundary :: nat
  bom_seen :: bool

definition new_TextDecoder :: utf8_decoder where
  "new_TextDecoder =
     \<lparr> code_point = 0, bytes_seen = 0, bytes_needed = 0,
       lower_boundary = 128, upper_boundary = 191, bom_seen = False \<rparr>"

text \<open>A byte met while no sequence is open: the code points produced and the new state.\<close>

definition utf8_lead :: "utf8_decoder \<Rightarrow> nat \<Rightarrow> nat list \<times> utf8_decoder" where
  "utf8_lead d b =
     (if b \<le> 127 then ([b], d)
      else if 194 \<le> b \<and> b \<le> 223
        then ([], d\<lparr>bytes_needed := 1, code_point := b - 192\<rparr>)
      else if 224 \<le> b \<and> b \<le> 239
        then ([], d\<lparr>lower_boundary := (if b = 224 then 160 else lower_boundary d),
                     upper_boundary := (if b = 237 then 159 else upper_boundary d),
                     bytes_needed := 2, code_point := b - 224\<rparr>)
      else if 240 \<le> b \<and> b \<le> 244
        then ([], d\<lparr>lower_boundary := (if b = 240 then 144 else lower_boundary d),
                     upper_boundary := (if b = 244 then 143 else upper_boundary d),
                     bytes_needed := 3, code_point := b - 240\<rparr>)
      else ([65533], d))"

text \<open>
  The handler for one byte. A byte outside the boundaries of an open sequence resets the
  decoder, yields U+FFFD and is then handled again as a first byte.
\<close>

definition utf8_byte :: "utf8_decoder \<Rightarrow> 8 word \<Rightarrow> nat list \<times> utf8_decoder" where
  "utf8_byte d w =
     (let b = unat w in
      if bytes_needed d = 0 then utf8_lead d b
      else if b < lower_boundary d \<or> upper_boundary d < b
        then (let (out, d') = utf8_lead (d\<lparr>code_point := 0, bytes_needed := 0, bytes_seen := 0,
                                           lower_boundary := 128, upper_boundary := 191\<rparr>) b
              in (65533 # out, d'))
      else (let d1 = d\<lparr>lower_boundary := 128, upper_boundary := 191,
                        code_point := code_point d * 64 + (b - 128),
                        bytes_seen := Suc (bytes_seen d)\<rparr>
            in if bytes_seen d1 \<noteq> bytes_needed d1 then ([], d1)
               else ([code_point d1], d1\<lparr>code_point := 0, bytes_needed := 0, bytes_seen := 0\<rparr>)))"

text \<open>
  Serialising the decoded code points into a string: a byte order mark that comes first is
  dropped, and a code point above U+FFFF becomes a surrogate pair.
\<close>

definition utf16 :: "nat \<Rightarrow> jsstring" where
  "utf16 cp =
     (if cp < 65536 then [cp]
      else [55296 + (cp - 65536) div 1024, 56320 + (cp - 65536) mod 1024])"

fun serialize :: "utf8_decoder \<Rightarrow> nat list \<Rightarrow> jsstring \<times> utf8_decoder" where
  "serialize d [] = ([], d)"
| "serialize d (cp # cps) =
     (if \<not> bom_seen d
      then (let (s, d') = serialize (d\<lparr>bom_seen := True\<rparr>) cps
            in ((if cp = 65279 then [] else utf16 cp) @ s, d'))
      else (let (s, d') = serialize d cps in (utf16 cp @ s, d')))"

text \<open>\<open>decoder.decode(value, { stream: true })\<close>: the text produced by one chunk.\<close>

fun decode :: "utf8_decoder \<Rightarrow> 8 word list \<Rightarrow> jsstring \<times> utf8_decoder" where
  "decode d [] = ([], d)"
| "decode d (w # ws) =
     (let (cps, d1) = utf8_byte d w;
          (s, d2) = serialize d1 cps;
          (s', d3) = decode d2 ws
      in (s @ s', d3))"

subsection \<open>\<open>createSynthesisJob\<close>\<close>

text \<open>
  What \<open>await reader.read()\<close> gives while the stream is open: a chunk of bytes, or a
  rejection when the connection fails. The body of a response is the list of these results
  up to the point where the reader reports \<open>done\<close>.
\<close>

datatype read_result = Chunk "8 word list" | ReadRejected

text \<open>
  The JSON document of a buffered response, as far as the code looks at it: an object
  with a \<open>detail\<close> string (the error envelope), a \<open>SynthesisResponse\<close>, or an object
  with neither, such as the \<open>{}\<close> that stands in when \<open>response.json()\<close> rejects.
\<close>

datatype reply = EmptyObject | Detail jsstring | Synthesis synthesis_response

record response =
  ok :: bool
  content_type :: "jsstring option"
  body :: "read_result list option"
  json :: "reply option"

text \<open>\<open>await fetch(...)\<close> resolves with a response or rejects.\<close>

datatype fetch_result = FetchRejected | Response response

text \<open>What is thrown: an \<open>Error\<close> with a message, or the rejection of the platform.\<close>

datatype error = Error jsstring | Rejected

text \<open>
  The \<open>while (true)\<close> loop over the reads: the calls made to the sink, and the rejection
  that ended the loop, if one did. The end of the list is \<open>done\<close>.
\<close>

fun stream_loop ::
  "(jsstring \<Rightarrow> 'j option) \<Rightarrow> read_result list \<Rightarrow> utf8_decoder \<Rightarrow> jsstring
     \<Rightarrow> 'j sse_data list \<times> error option" where
  "stream_loop json_parse [] decoder buffer = ([], None)"
| "stream_loop json_parse (ReadRejected # reads) decoder buffer = ([], Some Rejected)"
| "stream_loop json_parse (Chunk v # reads) decoder buffer =
     (let (txt, decoder') = decode decoder v;
          (evs, buffer') = parseSseChunk json_parse (buffer @ txt);
          (evs', r) = stream_loop json_parse reads decoder' buffer'
      in (evs @ evs', r))"

text \<open>
  \<open>createSynthesisJob\<close>: the calls made to \<open>opts.onEvent\<close>, and the value returned
  (\<open>Inr\<close>, with \<open>None\<close> for \<open>null\<close>) or thrown (\<open>Inl\<close>). \<open>opts.signal\<close> is handed
  to \<open>fetch\<close> and used nowhere else; \<open>handlePrompt\<close>, the only caller, passes none, so
  a rejection here is a failure of the network.
\<close>

definition createSynthesisJob ::
  "(jsstring \<Rightarrow> 'j option) \<Rightarrow> fetch_result \<Rightarrow> 'j sse_data list \<times> (error + reply option)" where
  "createSynthesisJob json_parse fr =
     (case fr of
        FetchRejected \<Rightarrow> ([], Inl Rejected)
      | Response r \<Rightarrow>
          (let contentType = (case content_type r of None \<Rightarrow> [] | Some c \<Rightarrow> c) in
           case (if js_includes contentType (js ''text/event-stream'') then body r else None) of
             Some reads \<Rightarrow>
               (case stream_loop json_parse reads new_TextDecoder [] of
                  (evs, None) \<Rightarrow> (evs, Inr None)
                | (evs, Some e) \<Rightarrow> (evs, Inl e))
           | None \<Rightarrow>
               (let data = (case json r of None \<Rightarrow> EmptyObject | Some d \<Rightarrow> d) in
                if \<not> ok r
                then ([], Inl (Error (case data of
                                        Detail m \<Rightarrow> if m \<noteq> [] then m else js ''Request failed''
                                      | _ \<Rightarrow> js ''Request failed'')))
                else ([], Inr (Some data)))))"

section \<open>\<open>handlePrompt\<close> (\<open>frontend/src/main.ts\<close>)\<close>

text \<open>The decimal digits of a number, as a template literal prints it.\<close>

fun decimal :: "nat \<Rightarrow> jsstring" where
  "decimal n = (if n < 10 then [48 + n] else decimal (n div 10) @ [48 + n mod 10])"

declare decimal.simps [simp del]

text \<open>
  The cast \<open>data as SynthesisResponse\<close> on what \<open>createSynthesisJob\<close> returned: \<open>null\<close>
  and a \<open>SynthesisResponse\<close> are what the type says; for any other object the cast is
  wrong and the code that follows has no meaning in its own types.
\<close>

fun as_SynthesisResponse :: "reply option \<Rightarrow> synthesis_response option option" where
  "as_SynthesisResponse None = Some None"
| "as_SynthesisResponse (Some (Synthesis r)) = Some (Some r)"
| "as_SynthesisResponse (Some _) = None"

text \<open>
  \<open>handlePrompt\<close>, from the payload that \<open>buildPayload\<close> read and the outcome of the
  request. Validation errors end it at once. Otherwise a placeholder record is stored under
  \<open>job-<Date.now()>\<close>, the events of the stream are handled in order, and then either the
  result is stored (\<open>try\<close>) or the placeholder is marked failed (\<open>catch\<close>). The result is
  \<open>None\<close> where the reply is not what the cast says.
\<close>

definition handlePrompt ::
  "(jsstring \<Rightarrow> json_value option) \<Rightarrow> payload \<Rightarrow> fetch_result \<Rightarrow> world \<Rightarrow> world option" where
  "handlePrompt json_parse p fr w =
     (if validate p \<noteq> [] then Some w
      else
        (let (t, w1) = Date_now w;
             tempId = js ''job-'' @ decimal t;
             (placeholder, w2) = toJobStatus None tempId (text_p p) w1;
             w3 = upsertJob placeholder w2;
             (evs, outcome) = createSynthesisJob json_parse fr;
             w4 = fold onEvent evs w3
         in case outcome of
              Inl err \<Rightarrow> Some (updateJobProgress tempId 100 (Some failed) w4)
            | Inr returned \<Rightarrow>
                (case as_SynthesisResponse returned of
                   None \<Rightarrow> None
                 | Some result \<Rightarrow>
                     (let (job, w5) = toJobStatus result tempId (text_p p) w4;
                          job' = job\<lparr>progress :=
                                   (if map_option resp_status result = Some completed
                                    then 100 else progress job)\<rparr>
                      in Some (upsertJob job' w5)))))"

text \<open>Reading one record out of what \<open>handlePrompt\<close> leaves.\<close>

definition lookup_job :: "jsstring \<Rightarrow> world option \<Rightarrow> job_state option" where
  "lookup_job k wo = (case wo of None \<Rightarrow> None | Some w \<Rightarrow> jobs w k)"

section \<open>Example data\<close>

text \<open>A clock that starts at 1000 and advances by one at every reading.\<close>

definition clock0 :: "nat \<Rightarrow> nat" where
  "clock0 n = 1000 + n"

definition audio_plan :: synthesis_plan where
  "audio_plan =
     \<lparr> prompt_length = 5, modalities = [js ''audio''], render_video = False,
       dry_run = False \<rparr>"

definition done_job :: job_state where
  "done_job =
     \<lparr> id_job = js ''j1'', status = completed, plan = audio_plan,
       artifacts = [(js ''audio'', js ''/a.wav'')], progress = 100,
       createdAt = 10, updatedAt = 20, prompt = js ''hello'' \<rparr>"

definition running_job :: job_state where
  "running_job =
     \<lparr> id_job = js ''j2'', status = running, plan = audio_plan,
       artifacts = [], progress = 40,
       createdAt = 30, updatedAt = 40, prompt = js ''hello'' \<rparr>"

definition example_world :: world where
  "example_world =
     \<lparr> jobs = [js ''j1'' \<mapsto> done_job, js ''j2'' \<mapsto> running_job],
       clock = clock0, calls = 0 \<rparr>"

text \<open>Three streamed events: \<open>{job_id: 'j1', status: 'running', progress: 40}\<close>,
  \<open>{job_id: 'j2', progress: 5}\<close> and \<open>{job_id: 'j9', status: 'running', progress: 30}\<close>.\<close>

definition late_event :: event where
  "late_event =
     \<lparr> ev_job_id = Some (js ''j1''), ev_status = Some running, ev_artifacts = None,
       ev_progress = Some 40 \<rparr>"

definition low_event :: event where
  "low_event =
     \<lparr> ev_job_id = Some (js ''j2''), ev_status = None, ev_artifacts = None,
       ev_progress = Some 5 \<rparr>"

definition unknown_event :: event where
  "unknown_event =
     \<lparr> ev_job_id = Some (js ''j9''), ev_status = Some running, ev_artifacts = None,
       ev_progress = Some 30 \<rparr>"

text \<open>
  A stand-in for \<open>JSON.parse\<close> that knows four texts and agrees with \<open>JSON.parse\<close> on
  them: an empty object, the number 1, one progress event, and \<open>nope\<close>, which is not JSON.
\<close>

definition progress_event :: event where
  "progress_event =
     \<lparr> ev_job_id = Some (js ''job-1000''), ev_status = Some running, ev_artifacts = None,
       ev_progress = Some 40 \<rparr>"

definition example_parse :: "jsstring \<Rightarrow> json_value option" where
  \<open>example_parse s =
     (if s = js ''{}''
        then Some (ObjectValue \<lparr> ev_job_id = None, ev_status = None, ev_artifacts = None,
                                 ev_progress = None \<rparr>)
      else if s = js ''1'' then Some Primitive
      else if s = js ''{"job_id":"job-1000","status":"running","progress":40}''
        then Some (ObjectValue progress_event)
      else None)\<close>

text \<open>The text \<open>data: nope\<close>, a blank line, \<open>data: {}\<close>, a blank line.\<close>

definition example_buffer :: jsstring where
  "example_buffer = js ''data: nope'' @ [10, 10] @ js ''data: {}'' @ [10, 10]"

text \<open>
  A response with status 500 that declares an event stream and delivers the bytes of
  \<open>data: 1\<close> and a blank line in two chunks.
\<close>

definition failing_stream_response :: response where
  "failing_stream_response =
     \<lparr> ok = False, content_type = Some (js ''text/event-stream; charset=utf-8''),
       body = Some (map Chunk [ [0x64, 0x61, 0x74, 0x61, 0x3A, 0x20, 0x31, 0x0A], [0x0A] ]),
       json = None \<rparr>"




text \<open>
  An event stream whose first read delivers the bytes of
  \<open>data: {"job_id":"job-1000","status":"running","progress":40}\<close> and a blank line, and
  whose second read is rejected.
\<close>

definition progress_event_bytes :: "8 word list" where
  "progress_event_bytes =
     [0x64, 0x61, 0x74, 0x61, 0x3A, 0x20, 0x7B, 0x22, 0x6A, 0x6F, 0x62, 0x5F, 0x69, 0x64,
      0x22, 0x3A, 0x22, 0x6A, 0x6F, 0x62, 0x2D, 0x31, 0x30, 0x30, 0x30, 0x22, 0x2C, 0x22,
      0x73, 0x74, 0x61, 0x74, 0x75, 0x73, 0x22, 0x3A, 0x22, 0x72, 0x75, 0x6E, 0x6E, 0x69,
      0x6E, 0x67, 0x22, 0x2C, 0x22, 0x70, 0x72, 0x6F, 0x67, 0x72, 0x65, 0x73, 0x73, 0x22,
      0x3A, 0x34, 0x30, 0x7D, 0x0A, 0x0A]"

definition broken_stream_response :: response where
  "broken_stream_response =
     \<lparr> ok = True, content_type = Some (js ''text/event-stream''),
       body = Some [Chunk progress_event_bytes, ReadRejected],
       json = None \<rparr>"

text \<open>
  A buffered reply that names the job \<open>j1\<close> again, as running and without artifacts.
\<close>

definition reused_id_reply :: synthesis_response where
  "reused_id_reply =
     \<lparr> job_id = js ''j1'', resp_status = running, resp_plan = audio_plan,
       resp_artifacts = [] \<rparr>"

definition reused_id_response :: response where
  "reused_id_response =
     \<lparr> ok = True, content_type = Some (js ''application/json''), body = None,
       json = Some (Synthesis reused_id_reply) \<rparr>"

section \<open>Validation: results\<close>

lemma js_lt_le_False: "js_le a b \<Longrightarrow> js_lt b a \<Longrightarrow> False"
  by (cases a; cases b) auto

lemma js_gt_le_False: "js_gt a b \<Longrightarrow> js_le a b \<Longrightarrow> False"
  unfolding js_gt_def by (rule js_lt_le_False)

text \<open>
  C8. A payload whose prompt is non-empty, whose two temperatures lie in [0, 1.5] and
  whose fps is greater than 0 passes \<open>validate\<close> with an empty list of errors.
\<close>

theorem validate_accepts:
  assumes "text_p p \<noteq> []"
    and "in_range (Num 0) (Num (3 / 2)) (textTemp p)"
    and "in_range (Num 0) (Num (3 / 2)) (waveformTemp p)"
    and "js_gt (fps p) (Num 0)"
  shows "validate p = []"
proof -
  have t: "\<not> js_lt (textTemp p) (Num 0)" "\<not> js_gt (textTemp p) (Num (3 / 2))"
    using assms(2) js_lt_le_False js_gt_le_False unfolding in_range_def by blast+
  have w: "\<not> js_lt (waveformTemp p) (Num 0)" "\<not> js_gt (waveformTemp p) (Num (3 / 2))"
    using assms(3) js_lt_le_False js_gt_le_False unfolding in_range_def by blast+
  have f: "\<not> js_le (fps p) (Num 0)"
    using assms(4) js_gt_le_False by blast
  show ?thesis
    using assms(1) t w f by (simp add: validate_def)
qed

theorem validate_accepts_witness:
  "text_p example_payload \<noteq> []
   \<and> in_range (Num 0) (Num (3 / 2)) (textTemp example_payload)
   \<and> in_range (Num 0) (Num (3 / 2)) (waveformTemp example_payload)
   \<and> js_gt (fps example_payload) (Num 0)
   \<and> validate example_payload = []"
proof -
  have 1: "text_p example_payload \<noteq> []"
    by (simp add: example_payload_def js_def)
  have 2: "in_range (Num 0) (Num (3 / 2)) (textTemp example_payload)"
    by (simp add: example_payload_def in_range_def)
  have 3: "in_range (Num 0) (Num (3 / 2)) (waveformTemp example_payload)"
    by (simp add: example_payload_def in_range_def)
  have 4: "js_gt (fps example_payload) (Num 0)"
    by (simp add: example_payload_def js_gt_def)
  from validate_accepts [OF 1 2 3 4] 1 2 3 4 show ?thesis by simp
qed

text \<open>
  C9, as stated, fails: the example payload has the one-element resolution \<open>[NaN]\<close> and
  passes \<open>validate\<close> without an error.
\<close>

theorem validate_resolution_counterexample:
  "\<not> resolution_ok (resolution example_payload) \<and> validate example_payload = []"
  by (simp add: example_payload_def validate_def resolution_ok_def js_def js_gt_def)

text \<open>
  C9, amended. \<open>validate\<close> does not look at the resolution: replacing the resolution of a
  payload by any other list of numbers leaves the list of errors as it is.
\<close>

theorem validate_ignores_resolution:
  "validate (p\<lparr>resolution := r\<rparr>) = validate p"
  by (simp add: validate_def)

section \<open>Registry: results\<close>

lemma updateJobProgress_present:
  assumes "jobs w k = Some j"
  shows "jobs (updateJobProgress k p st w) k =
     Some (case st of
             Some s \<Rightarrow> j\<lparr>progress := min p 100, updatedAt := clock w (calls w), status := s\<rparr>
           | None \<Rightarrow> j\<lparr>progress := min p 100, updatedAt := clock w (calls w)\<rparr>)"
  using assms
  by (simp add: updateJobProgress_def upsertJob_def Date_now_def Let_def split: option.splits)

lemma updateJobProgress_absent: "jobs w k = None \<Longrightarrow> updateJobProgress k p st w = w"
  by (simp add: updateJobProgress_def)

text \<open>
  C3, as stated, fails: job \<open>j2\<close> is stored with progress 40, and handling an event for
  \<open>j2\<close> with progress 5 and no status leaves it stored with progress 5.
\<close>

theorem progress_decreases_counterexample:
  "map_option progress (jobs example_world (js ''j2'')) = Some 40
   \<and> map_option progress
        (jobs (onEvent (Parsed (ObjectValue low_event)) example_world) (js ''j2''))
      = Some 5"
  by (simp add: example_world_def running_job_def low_event_def updateJobProgress_def
      upsertJob_def Date_now_def js_def)

text \<open>
  C3, amended. For an existing job record, \<open>updateJobProgress\<close> stores the smaller of the
  incoming progress and 100, whatever the stored progress and whatever the incoming
  status.
\<close>

theorem update_overwrites_progress:
  assumes "jobs w k = Some j"
  shows "\<exists>j'. jobs (updateJobProgress k p st w) k = Some j' \<and> progress j' = min p 100"
  using updateJobProgress_present [OF assms, of p st] by (cases st) simp_all

theorem update_overwrites_progress_witness:
  "jobs example_world (js ''j2'') = Some running_job
   \<and> (\<exists>j'. jobs (updateJobProgress (js ''j2'') 5 None example_world) (js ''j2'') = Some j'
             \<and> progress j' = min 5 100)"
proof -
  have 1: "jobs example_world (js ''j2'') = Some running_job"
    by (simp add: example_world_def js_def)
  from update_overwrites_progress [OF 1] 1 show ?thesis by blast
qed

text \<open>
  C5, as stated, fails: no record is stored under \<open>j9\<close>, and after an event for \<open>j9\<close> is
  handled there is still none.
\<close>

theorem unknown_id_counterexample:
  "jobs example_world (js ''j9'') = None
   \<and> jobs (onEvent (Parsed (ObjectValue unknown_event)) example_world) (js ''j9'') = None"
  by (simp add: example_world_def unknown_event_def js_def)

text \<open>
  C5, amended. An event that carries a job id under which no record is stored is
  discarded: handling it leaves the registry, and the whole state, as it was; so does
  \<open>updateJobProgress\<close> for that id.
\<close>

theorem unknown_id_discarded:
  assumes "ev_job_id e = Some k" and "jobs w k = None"
  shows "onEvent (Parsed (ObjectValue e)) w = w \<and> updateJobProgress k p st w = w"
  using assms by (simp add: updateJobProgress_absent)

theorem unknown_id_discarded_witness:
  "ev_job_id unknown_event = Some (js ''j9'') \<and> jobs example_world (js ''j9'') = None
   \<and> onEvent (Parsed (ObjectValue unknown_event)) example_world = example_world
   \<and> updateJobProgress (js ''j9'') 30 (Some running) example_world = example_world"
proof -
  have 1: "ev_job_id unknown_event = Some (js ''j9'')"
    by (simp add: unknown_event_def)
  have 2: "jobs example_world (js ''j9'') = None"
    by (simp add: example_world_def js_def)
  from unknown_id_discarded [OF 1 2] 1 2 show ?thesis by blast
qed

section \<open>Stream decoding: results\<close>

lemma split_blank_nonempty: "split_blank s \<noteq> []"
  by (induction s rule: split_blank.induct) (auto split: list.splits)

lemma split_blank_single: "split_blank s = [m] \<Longrightarrow> m = s"
proof (induction s arbitrary: m rule: split_blank.induct)
  case (3 c d cs)
  show ?case
  proof (cases "c = 10 \<and> d = 10")
    case True
    with 3(3) split_blank_nonempty [of cs] show ?thesis by simp
  next
    case False
    obtain x xs where X: "split_blank (d # cs) = x # xs"
      using split_blank_nonempty [of "d # cs"] by (cases "split_blank (d # cs)") auto
    from 3(3) False X have "xs = []" "m = c # x" by auto
    with 3(2) [OF False, of x] X show ?thesis by simp
  qed
qed simp_all

lemma split_blank_append:
  "split_blank (s @ t) = butlast (split_blank s) @ split_blank (last (split_blank s) @ t)"
proof (induction s rule: split_blank.induct)
  case 1
  show ?case by simp
next
  case (2 c)
  show ?case by simp
next
  case (3 c d cs)
  show ?case
  proof (cases "c = 10 \<and> d = 10")
    case True
    with 3(1) split_blank_nonempty [of cs] show ?thesis by simp
  next
    case False
    obtain x xs where X: "split_blank (d # cs) = x # xs"
      using split_blank_nonempty [of "d # cs"] by (cases "split_blank (d # cs)") auto
    have IH: "split_blank ((d # cs) @ t) = butlast (x # xs) @ split_blank (last (x # xs) @ t)"
      using 3(2) [OF False] X by simp
    have L: "split_blank ((c # d # cs) @ t) =
        (case split_blank ((d # cs) @ t) of [] \<Rightarrow> [ [c] ] | m # ms \<Rightarrow> (c # m) # ms)"
      using False by auto
    have R: "split_blank (c # d # cs) = (c # x) # xs"
      using False X by auto
    show ?thesis
    proof (cases xs)
      case Nil
      with X have "x = d # cs" using split_blank_single by blast
      with R Nil have "split_blank (c # d # cs) = [c # d # cs]" by simp
      then show ?thesis by (simp del: split_blank.simps)
    next
      case (Cons y ys)
      have "split_blank ((d # cs) @ t) = x # butlast xs @ split_blank (last xs @ t)"
        using IH Cons by simp
      with L R Cons show ?thesis by (simp del: split_blank.simps)
    qed
  qed
qed

lemma parseSseChunk_append:
  "parseSseChunk jp (s @ t) =
     (fst (parseSseChunk jp s) @ fst (parseSseChunk jp (snd (parseSseChunk jp s) @ t)),
      snd (parseSseChunk jp (snd (parseSseChunk jp s) @ t)))"
  using split_blank_nonempty [of "last (split_blank s) @ t"]
  by (simp add: parseSseChunk_def Let_def split_blank_append [of s t] butlast_append)

lemma decode_append:
  "decode d (a @ b) =
     (fst (decode d a) @ fst (decode (snd (decode d a)) b), snd (decode (snd (decode d a)) b))"
  by (induction a arbitrary: d) (auto simp: split_beta Let_def)

lemma stream_loop_chunks:
  "stream_loop jp (map Chunk chunks) d (snd (parseSseChunk jp pre)) = (evs, r) \<Longrightarrow>
   r = None \<and>
   fst (parseSseChunk jp pre) @ evs = fst (parseSseChunk jp (pre @ fst (decode d (concat chunks))))"
proof (induction chunks arbitrary: d pre evs r)
  case Nil
  then show ?case by simp
next
  case (Cons v vs)
  define tx where "tx = fst (decode d v)"
  define d' where "d' = snd (decode d v)"
  define rest where "rest = stream_loop jp (map Chunk vs) d' (snd (parseSseChunk jp (pre @ tx)))"
  have P: "parseSseChunk jp (pre @ tx) =
     (fst (parseSseChunk jp pre) @ fst (parseSseChunk jp (snd (parseSseChunk jp pre) @ tx)),
      snd (parseSseChunk jp (snd (parseSseChunk jp pre) @ tx)))"
    by (rule parseSseChunk_append)
  have step: "stream_loop jp (map Chunk (v # vs)) d (snd (parseSseChunk jp pre)) =
      (fst (parseSseChunk jp (snd (parseSseChunk jp pre) @ tx)) @ fst rest, snd rest)"
    using P by (simp add: split_beta Let_def tx_def d'_def rest_def)
  have IH: "snd rest = None \<and>
     fst (parseSseChunk jp (pre @ tx)) @ fst rest =
       fst (parseSseChunk jp ((pre @ tx) @ fst (decode d' (concat vs))))"
    using Cons.IH [of d' "pre @ tx" "fst rest" "snd rest"] by (simp add: rest_def)
  have D: "fst (decode d (concat (v # vs))) = tx @ fst (decode d' (concat vs))"
    by (simp add: decode_append tx_def d'_def)
  from Cons.prems step have "evs = fst (parseSseChunk jp (snd (parseSseChunk jp pre) @ tx)) @ fst rest"
    and "r = snd rest" by simp_all
  with IH P D show ?case by simp
qed

lemma stream_loop_events:
  "stream_loop jp (map Chunk chunks) new_TextDecoder [] =
     (fst (parseSseChunk jp (fst (decode new_TextDecoder (concat chunks)))), None)"
proof -
  have e: "parseSseChunk jp [] = ([], [])" by (simp add: parseSseChunk_def)
  obtain evs r where L: "stream_loop jp (map Chunk chunks) new_TextDecoder [] = (evs, r)"
    by (cases "stream_loop jp (map Chunk chunks) new_TextDecoder []") auto
  from stream_loop_chunks [of jp chunks new_TextDecoder "[]" evs r] L e
  show ?thesis by simp
qed

text \<open>
  An example run: the bytes of \<open>data: \<close> followed by the two bytes of U+00E9 and a blank
  line arrive in three chunks, the first of which ends inside the character. \<open>JSON.parse\<close>
  rejects the payload, and the sink receives the one character.
\<close>

lemma split_character_example:
  "stream_loop (\<lambda>s. None :: json_value option)
     (map Chunk [ [0x64, 0x61, 0x74, 0x61, 0x3A, 0x20, 0xC3], [0xA9, 0x0A], [0x0A] ])
     new_TextDecoder []
   = ([Raw [233] ], None)"
  by (simp add: js_def parseSseChunk_def message_events_def data_line_def payload_text_def
      js_trim_def js_whitespace_def new_TextDecoder_def utf8_byte_def utf8_lead_def utf16_def
      Let_def)

text \<open>
  C2. For every sequence of bytes and every way of cutting it into chunks, the read loop
  fed the chunks one at a time makes the same calls to the sink, in the same order, and
  ends in the same way as the loop fed the whole sequence as one chunk. This holds for
  every sequence, so in particular for one that encodes well-formed messages each ended
  by a blank line.
\<close>

theorem chunk_boundary_invariance:
  "stream_loop json_parse (map Chunk chunks) new_TextDecoder [] =
   stream_loop json_parse [Chunk (concat chunks)] new_TextDecoder []"
  using stream_loop_events [of json_parse chunks]
    stream_loop_events [of json_parse "[concat chunks]"]
  by simp

text \<open>
  C7. When a completed message of the buffer has a data line whose payload \<open>JSON.parse\<close>
  rejects, the sink receives the payload text itself at that message's place, between what
  the earlier and the later messages of the buffer produce.
\<close>

theorem malformed_payload_passed_raw:
  assumes "butlast (split_blank buffer) = before @ message # after"
    and "data_line message = Some line"
    and "json_parse (payload_text line) = None"
  shows "fst (parseSseChunk json_parse buffer) =
     concat (map (message_events json_parse) before) @
     Raw (payload_text line) # concat (map (message_events json_parse) after)"
  using assms by (simp add: parseSseChunk_def message_events_def Let_def)

theorem malformed_payload_passed_raw_witness:
  "butlast (split_blank example_buffer) = [] @ js ''data: nope'' # [js ''data: {}'']
   \<and> data_line (js ''data: nope'') = Some (js ''data: nope'')
   \<and> example_parse (payload_text (js ''data: nope'')) = None
   \<and> fst (parseSseChunk example_parse example_buffer) =
       concat (map (message_events example_parse) []) @
       Raw (payload_text (js ''data: nope'')) #
       concat (map (message_events example_parse) [js ''data: {}''])"
proof -
  have 1: "butlast (split_blank example_buffer) = [] @ js ''data: nope'' # [js ''data: {}'']"
    by (simp add: example_buffer_def js_def)
  have 2: "data_line (js ''data: nope'') = Some (js ''data: nope'')"
    by (simp add: data_line_def js_def js_trim_def js_whitespace_def)
  have 3: "example_parse (payload_text (js ''data: nope'')) = None"
    by (simp add: example_parse_def payload_text_def js_def js_trim_def js_whitespace_def)
  from malformed_payload_passed_raw [where before = "[]" and json_parse = example_parse, OF 1 2 3]
    1 2 3 show ?thesis by blast
qed

lemma stream_loop_no_rejection:
  "ReadRejected \<notin> set reads \<Longrightarrow> snd (stream_loop jp reads d buffer) = None"
proof (induction reads arbitrary: d buffer)
  case Nil
  show ?case by simp
next
  case (Cons x xs)
  then show ?case by (cases x) (simp_all add: split_beta Let_def)
qed

lemma createSynthesisJob_streaming:
  assumes "content_type r = Some ct" and "js_includes ct (js ''text/event-stream'')"
    and "body r = Some reads"
  shows "createSynthesisJob jp (Response r) =
     (fst (stream_loop jp reads new_TextDecoder []),
      case snd (stream_loop jp reads new_TextDecoder []) of None \<Rightarrow> Inr None | Some e \<Rightarrow> Inl e)"
  using assms by (simp add: createSynthesisJob_def split_beta split: option.splits prod.splits)

text \<open>
  C10. For a response that declares \<open>text/event-stream\<close> and has a body,
  \<open>createSynthesisJob\<close> consumes the stream: the sink receives what the read loop over the
  body produces. It does the same whatever the response's \<open>ok\<close> flag is, and when no read
  of the body is rejected it returns \<open>null\<close>: nothing is thrown on account of the status
  of the response.
\<close>

theorem streaming_path_ignores_ok:
  assumes "content_type r = Some ct" and "js_includes ct (js ''text/event-stream'')"
    and "body r = Some reads"
  shows "fst (createSynthesisJob json_parse (Response r)) =
           fst (stream_loop json_parse reads new_TextDecoder [])
         \<and> createSynthesisJob json_parse (Response (r\<lparr>ok := b\<rparr>)) =
           createSynthesisJob json_parse (Response r)
         \<and> (ReadRejected \<notin> set reads \<longrightarrow>
              snd (createSynthesisJob json_parse (Response r)) = Inr None)"
proof -
  have "fst (createSynthesisJob json_parse (Response r)) =
      fst (stream_loop json_parse reads new_TextDecoder [])"
    using createSynthesisJob_streaming [OF assms, of json_parse] by simp
  moreover have "createSynthesisJob json_parse (Response (r\<lparr>ok := b\<rparr>)) =
      createSynthesisJob json_parse (Response r)"
    using assms createSynthesisJob_streaming [of "r\<lparr>ok := b\<rparr>" ct reads json_parse]
      createSynthesisJob_streaming [of r ct reads json_parse] by simp
  moreover have "ReadRejected \<notin> set reads \<Longrightarrow>
      snd (createSynthesisJob json_parse (Response r)) = Inr None"
    using createSynthesisJob_streaming [OF assms, of json_parse]
      stream_loop_no_rejection [of reads json_parse new_TextDecoder "[]"] by simp
  ultimately show ?thesis by blast
qed

lemma failing_stream_events:
  "stream_loop example_parse
     (map Chunk [ [0x64, 0x61, 0x74, 0x61, 0x3A, 0x20, 0x31, 0x0A], [0x0A] ])
     new_TextDecoder []
   = ([Parsed Primitive], None)"
  by (simp add: js_def parseSseChunk_def message_events_def data_line_def payload_text_def
      example_parse_def js_trim_def js_whitespace_def new_TextDecoder_def utf8_byte_def
      utf8_lead_def utf16_def Let_def)

theorem streaming_path_ignores_ok_witness:
  "content_type failing_stream_response = Some (js ''text/event-stream; charset=utf-8'')
   \<and> js_includes (js ''text/event-stream; charset=utf-8'') (js ''text/event-stream'')
   \<and> body failing_stream_response
       = Some (map Chunk [ [0x64, 0x61, 0x74, 0x61, 0x3A, 0x20, 0x31, 0x0A], [0x0A] ])
   \<and> ReadRejected \<notin> set (map Chunk [ [0x64, 0x61, 0x74, 0x61, 0x3A, 0x20, 0x31, 0x0A], [0x0A] ])
   \<and> \<not> ok failing_stream_response
   \<and> fst (createSynthesisJob example_parse (Response failing_stream_response))
       = [Parsed Primitive]
   \<and> createSynthesisJob example_parse (Response (failing_stream_response\<lparr>ok := True\<rparr>)) =
       createSynthesisJob example_parse (Response failing_stream_response)
   \<and> snd (createSynthesisJob example_parse (Response failing_stream_response)) = Inr None"
proof -
  have 1: "content_type failing_stream_response = Some (js ''text/event-stream; charset=utf-8'')"
    by (simp add: failing_stream_response_def)
  have 2: "js_includes (js ''text/event-stream; charset=utf-8'') (js ''text/event-stream'')"
    by (simp add: js_def)
  have 3: "body failing_stream_response
       = Some (map Chunk [ [0x64, 0x61, 0x74, 0x61, 0x3A, 0x20, 0x31, 0x0A], [0x0A] ])"
    by (simp add: failing_stream_response_def)
  have 4: "ReadRejected \<notin> set (map Chunk [ [0x64, 0x61, 0x74, 0x61, 0x3A, 0x20, 0x31, 0x0A], [0x0A] ])"
    by simp
  have 5: "\<not> ok failing_stream_response"
    by (simp add: failing_stream_response_def)
  from streaming_path_ignores_ok [OF 1 2 3, of example_parse True] 1 2 3 4 5
    failing_stream_events
  show ?thesis by simp
qed

section \<open>\<open>handlePrompt\<close>: results\<close>


lemma toJobStatus_eq:
  "toJobStatus data fid pr w =
     (let base = (case data of Some d \<Rightarrow> d
                  | None \<Rightarrow> \<lparr> job_id = fid, resp_status = queued,
                        resp_plan = \<lparr> prompt_length = length pr, modalities = [js ''audio''],
                                      render_video = False, dry_run = True \<rparr>,
                        resp_artifacts = [] \<rparr>)
      in (\<lparr> id_job = job_id base, status = resp_status base, plan = resp_plan base,
            artifacts = resp_artifacts base,
            progress = (if resp_status base = completed then 100 else 10),
            createdAt = clock w (calls w), updatedAt = clock w (Suc (calls w)), prompt = pr \<rparr>,
          w\<lparr>calls := Suc (Suc (calls w))\<rparr>))"
  by (simp add: toJobStatus_def Date_now_def Let_def)

lemma handlePrompt_buffered:
  assumes "validate p = []"
    and "createSynthesisJob jp fr = ([], Inr (Some (Synthesis s)))"
  shows "handlePrompt jp p fr w =
     Some (w\<lparr>calls := calls w + 5,
            jobs := (jobs w)
              (js ''job-'' @ decimal (clock w (calls w)) \<mapsto>
                 \<lparr> id_job = js ''job-'' @ decimal (clock w (calls w)), status = queued,
                   plan = \<lparr> prompt_length = length (text_p p), modalities = [js ''audio''],
                            render_video = False, dry_run = True \<rparr>,
                   artifacts = [], progress = 10,
                   createdAt = clock w (calls w + 1), updatedAt = clock w (calls w + 2),
                   prompt = text_p p \<rparr>,
               job_id s \<mapsto>
                 \<lparr> id_job = job_id s, status = resp_status s, plan = resp_plan s,
                   artifacts = resp_artifacts s,
                   progress = (if resp_status s = completed then 100 else 10),
                   createdAt = clock w (calls w + 3), updatedAt = clock w (calls w + 4),
                   prompt = text_p p \<rparr>)\<rparr>)"
  using assms
  by (simp add: handlePrompt_def toJobStatus_eq Date_now_def upsertJob_def Let_def eval_nat_numeral)

lemma onEvent_keeps: "jobs w k \<noteq> None \<Longrightarrow> jobs (onEvent e w) k \<noteq> None"
proof (cases e)
  case (Raw s)
  assume "jobs w k \<noteq> None"
  with Raw show ?thesis by simp
next
  case (Parsed v)
  assume k: "jobs w k \<noteq> None"
  show ?thesis
  proof (cases v)
    case Primitive
    with Parsed k show ?thesis by simp
  next
    case (ObjectValue ev)
    with Parsed k show ?thesis
      by (auto simp: updateJobProgress_def upsertJob_def Date_now_def Let_def
          split: option.splits)
  qed
qed

lemma fold_onEvent_keeps: "jobs w k \<noteq> None \<Longrightarrow> jobs (fold onEvent evs w) k \<noteq> None"
proof (induction evs arbitrary: w)
  case Nil
  then show ?case by simp
next
  case (Cons e evs)
  from Cons.IH [OF onEvent_keeps [OF Cons.prems] ] show ?case by simp
qed

lemma handlePrompt_thrown:
  assumes "validate p = []"
    and "createSynthesisJob jp fr = (evs, Inl err)"
  shows "\<exists>j. lookup_job (js ''job-'' @ decimal (clock w (calls w))) (handlePrompt jp p fr w) = Some j
             \<and> status j = failed \<and> progress j = 100"
proof -
  define tempId where "tempId = js ''job-'' @ decimal (clock w (calls w))"
  define w3 where
    "w3 = upsertJob (fst (toJobStatus None tempId (text_p p) (snd (Date_now w))))
            (snd (toJobStatus None tempId (text_p p) (snd (Date_now w))))"
  define w4 where "w4 = fold onEvent evs w3"
  have H: "handlePrompt jp p fr w = Some (updateJobProgress tempId 100 (Some failed) w4)"
    using assms
    by (simp add: handlePrompt_def Let_def split_beta w4_def w3_def tempId_def Date_now_def)
  have "jobs w3 tempId \<noteq> None"
    by (simp add: w3_def upsertJob_def toJobStatus_eq)
  then have "jobs w4 tempId \<noteq> None"
    unfolding w4_def by (rule fold_onEvent_keeps)
  then obtain j4 where "jobs w4 tempId = Some j4" by blast
  from updateJobProgress_present [OF this, of 100 "Some failed"] H
  show ?thesis by (simp add: lookup_job_def tempId_def)
qed

lemma stream_loop_rejected:
  "stream_loop jp (map Chunk chunks @ ReadRejected # later) d buffer =
     (fst (stream_loop jp (map Chunk chunks) d buffer), Some Rejected)"
  by (induction chunks arbitrary: d buffer) (simp_all add: split_beta Let_def)

lemma createSynthesisJob_buffered:
  assumes "ok r" and "json r = Some (Synthesis s)" and "content_type r = Some ct"
    and "\<not> js_includes ct (js ''text/event-stream'')"
  shows "createSynthesisJob jp (Response r) = ([], Inr (Some (Synthesis s)))"
  using assms by (simp add: createSynthesisJob_def)

lemma example_payload_valid: "validate example_payload = []"
  by (simp add: example_payload_def validate_def js_def js_gt_def)

lemma broken_stream_events:
  "fst (createSynthesisJob example_parse (Response broken_stream_response))
     = [Parsed (ObjectValue progress_event)]"
  by (simp add: createSynthesisJob_def broken_stream_response_def progress_event_bytes_def
      js_def parseSseChunk_def message_events_def data_line_def example_parse_def payload_text_def js_trim_def js_whitespace_def
      new_TextDecoder_def utf8_byte_def utf8_lead_def utf16_def Let_def)




text \<open>
  A rejected read ends the loop: the sink has received exactly what the chunks read before
  produced and nothing of what would have followed, \<open>createSynthesisJob\<close> throws, and the
  \<open>catch\<close> of \<open>handlePrompt\<close> stores the placeholder job as failed with progress 100.
\<close>

lemma rejected_read_marks_failed:
  assumes "validate p = []" and "content_type r = Some ct"
    and "js_includes ct (js ''text/event-stream'')"
    and "body r = Some (map Chunk chunks @ ReadRejected # later)"
  shows "createSynthesisJob json_parse (Response r) =
           (fst (stream_loop json_parse (map Chunk chunks) new_TextDecoder []), Inl Rejected)
       \<and> (\<exists>j. lookup_job (js ''job-'' @ decimal (clock w (calls w)))
                  (handlePrompt json_parse p (Response r) w) = Some j
               \<and> status j = failed \<and> progress j = 100)"
proof -
  have c: "createSynthesisJob json_parse (Response r) =
           (fst (stream_loop json_parse (map Chunk chunks) new_TextDecoder []), Inl Rejected)"
    using createSynthesisJob_streaming [OF assms(2-4), of json_parse]
    by (simp add: stream_loop_rejected)
  from handlePrompt_thrown [OF assms(1) c, of w] c show ?thesis by blast
qed

text \<open>
  C1, as stated, fails on both paths that update a record. Job \<open>j1\<close> is stored as
  completed with an audio artifact. Handling an event for \<open>j1\<close> that carries the status
  running leaves it stored as running; and a buffered reply that names \<open>j1\<close> as running,
  without artifacts, leaves it stored as running and without artifacts.
\<close>

theorem terminal_status_counterexample:
  "map_option status (jobs example_world (js ''j1'')) = Some completed
   \<and> map_option artifacts (jobs example_world (js ''j1''))
        = Some [(js ''audio'', js ''/a.wav'')]
   \<and> map_option status
        (jobs (onEvent (Parsed (ObjectValue late_event)) example_world) (js ''j1''))
      = Some running
   \<and> map_option status
        (lookup_job (js ''j1'')
           (handlePrompt example_parse example_payload (Response reused_id_response)
              example_world))
      = Some running
   \<and> map_option artifacts
        (lookup_job (js ''j1'')
           (handlePrompt example_parse example_payload (Response reused_id_response)
              example_world))
      = Some []"
proof -
  have c: "createSynthesisJob example_parse (Response reused_id_response)
      = ([], Inr (Some (Synthesis reused_id_reply)))"
    by (simp add: createSynthesisJob_def reused_id_response_def js_def)
  have e: "map_option status
        (jobs (onEvent (Parsed (ObjectValue late_event)) example_world) (js ''j1''))
      = Some running"
    by (simp add: example_world_def done_job_def late_event_def updateJobProgress_def
        upsertJob_def Date_now_def js_def)
  have h: "lookup_job (js ''j1'')
           (handlePrompt example_parse example_payload (Response reused_id_response)
              example_world)
      = Some \<lparr> id_job = js ''j1'', status = running, plan = audio_plan, artifacts = [],
                 progress = 10, createdAt = 1003, updatedAt = 1004,
                 prompt = js ''hello'' \<rparr>"
    unfolding handlePrompt_buffered [OF example_payload_valid c] lookup_job_def
    by (simp add: reused_id_reply_def example_world_def example_payload_def clock0_def)
  show ?thesis
    using e by (simp add: h) (simp add: example_world_def done_job_def js_def)
qed

text \<open>
  C1, amended. For a job stored with a terminal status: \<open>updateJobProgress\<close> with an
  earlier, non-terminal status leaves the stored artifacts unchanged and stores the
  incoming status; and a buffered reply that names the job with an earlier, non-terminal
  status replaces the stored record, so that the stored status and the stored artifacts
  are those of the reply.
\<close>

theorem terminal_record_overwritten:
  assumes "jobs w k = Some j" and "terminal (status j)" and "\<not> terminal s"
    and "validate p = []" and "ok r" and "json r = Some (Synthesis rep)"
    and "content_type r = Some ct" and "\<not> js_includes ct (js ''text/event-stream'')"
    and "job_id rep = k" and "resp_status rep = s"
  shows "(\<exists>j'. jobs (updateJobProgress k q (Some s) w) k = Some j'
               \<and> artifacts j' = artifacts j \<and> status j' = s)
       \<and> (\<exists>j'. lookup_job k (handlePrompt json_parse p (Response r) w) = Some j'
               \<and> artifacts j' = resp_artifacts rep \<and> status j' = s)"
proof -
  have u: "\<exists>j'. jobs (updateJobProgress k q (Some s) w) k = Some j'
               \<and> artifacts j' = artifacts j \<and> status j' = s"
    using updateJobProgress_present [OF assms(1), of q "Some s"] by simp
  have h: "\<exists>j'. lookup_job k (handlePrompt json_parse p (Response r) w) = Some j'
               \<and> artifacts j' = resp_artifacts rep \<and> status j' = s"
    using handlePrompt_buffered
      [OF assms(4) createSynthesisJob_buffered [OF assms(5-8)], of json_parse w]
      assms(9,10)
    by (simp add: lookup_job_def)
  from u h show ?thesis by blast
qed

theorem terminal_record_overwritten_witness:
  "jobs example_world (js ''j1'') = Some done_job \<and> terminal (status done_job)
   \<and> \<not> terminal running
   \<and> validate example_payload = [] \<and> ok reused_id_response
   \<and> json reused_id_response = Some (Synthesis reused_id_reply)
   \<and> content_type reused_id_response = Some (js ''application/json'')
   \<and> \<not> js_includes (js ''application/json'') (js ''text/event-stream'')
   \<and> job_id reused_id_reply = js ''j1'' \<and> resp_status reused_id_reply = running
   \<and> (\<exists>j'. jobs (updateJobProgress (js ''j1'') 40 (Some running) example_world) (js ''j1'')
               = Some j'
             \<and> artifacts j' = artifacts done_job \<and> status j' = running)
   \<and> (\<exists>j'. lookup_job (js ''j1'')
               (handlePrompt example_parse example_payload (Response reused_id_response)
                  example_world) = Some j'
             \<and> artifacts j' = resp_artifacts reused_id_reply \<and> status j' = running)"
proof -
  have 1: "jobs example_world (js ''j1'') = Some done_job"
    by (simp add: example_world_def js_def)
  have 2: "terminal (status done_job)"
    by (simp add: done_job_def terminal_def)
  have 3: "\<not> terminal running"
    by (simp add: terminal_def)
  have 4: "validate example_payload = []" by (rule example_payload_valid)
  have 5: "ok reused_id_response" by (simp add: reused_id_response_def)
  have 6: "json reused_id_response = Some (Synthesis reused_id_reply)"
    by (simp add: reused_id_response_def)
  have 7: "content_type reused_id_response = Some (js ''application/json'')"
    by (simp add: reused_id_response_def)
  have 8: "\<not> js_includes (js ''application/json'') (js ''text/event-stream'')"
    by (simp add: js_def)
  have 9: "job_id reused_id_reply = js ''j1''" by (simp add: reused_id_reply_def)
  have 10: "resp_status reused_id_reply = running" by (simp add: reused_id_reply_def)
  from terminal_record_overwritten [OF 1 2 3 4 5 6 7 8 9 10, of 40 example_parse]
    1 2 3 4 5 6 7 8 9 10
  show ?thesis by blast
qed

end
